theory Spec2Isabelle
  imports Complex_Main "HOL-Library.Char_ord" "HOL-Library.List_Lexorder" "HOL-Library.Product_Lexorder"
begin

unbundle bit_operations_syntax

section \<open>Strings, bytes and percent-encoding\<close>

text \<open>
  A Python \<open>str\<close> is represented by its UTF-8 encoding, a \<open>string\<close> (list of 8-bit
  characters). Python compares strings by code point, and the bytewise order of UTF-8
  encodings is the code point order, so \<open>sorted\<close> on Python strings is \<open>sort\<close> on this
  representation (lexicographic order on lists over the order of \<open>char\<close>).
  \<open>s.encode()\<close> is then the list of the byte values.
\<close>

type_synonym bytes = "nat list"

definition encode :: "string \<Rightarrow> bytes" where
  "encode s = map of_char s"

text \<open>\<open>sep.join(xs)\<close>\<close>

fun join :: "string \<Rightarrow> string list \<Rightarrow> string" where
  "join sep [] = []"
| "join sep [x] = x"
| "join sep (x # y # ys) = x @ sep @ join sep (y # ys)"

text \<open>
  \<open>urllib.parse.quote(s, safe='')\<close>: every byte of the UTF-8 encoding outside the
  always-safe set (ASCII letters, digits and \<open>_.-~\<close>) becomes \<open>%XX\<close> with upper-case
  hexadecimal digits.
\<close>

definition always_safe :: "char set" where
  "always_safe = set (''ABCDEFGHIJKLMNOPQRSTUVWXYZ'' @ ''abcdefghijklmnopqrstuvwxyz'' @
                      ''0123456789'' @ ''_.-~'')"

definition hexdigit :: "nat \<Rightarrow> char" where
  "hexdigit n = ''0123456789ABCDEF'' ! n"

definition quote_byte :: "char \<Rightarrow> string" where
  "quote_byte c =
     (if c \<in> always_safe then [c]
      else [CHR ''%'', hexdigit (of_char c div 16), hexdigit (of_char c mod 16)])"

definition quote :: "string \<Rightarrow> string" where
  "quote s = concat (map quote_byte s)"

text \<open>\<open>str(n)\<close> for a non-negative integer.\<close>

fun str_nat :: "nat \<Rightarrow> string" where
  "str_nat n = (if n < 10 then [''0123456789'' ! n]
                else str_nat (n div 10) @ [''0123456789'' ! (n mod 10)])"

declare str_nat.simps [simp del]

section \<open>Dictionaries\<close>

text \<open>
  A Python \<open>dict\<close> of strings: the items in insertion order, keys distinct.
  \<open>d[k] = v\<close> replaces the value of a key that is present (keeping its position) and
  appends a new key; \<open>{**a, **b}\<close> copies \<open>a\<close> and stores every item of \<open>b\<close> in turn.
\<close>

type_synonym dict = "(string \<times> string) list"

fun dict_set :: "dict \<Rightarrow> string \<Rightarrow> string \<Rightarrow> dict" where
  "dict_set [] k v = [(k, v)]"
| "dict_set ((k', v') # d) k v =
     (if k' = k then (k', v) # d else (k', v') # dict_set d k v)"

definition dict_merge :: "dict \<Rightarrow> dict \<Rightarrow> dict" where
  "dict_merge a b = foldl (\<lambda>d (k, v). dict_set d k v) a b"

text \<open>\<open>extra_params or {}\<close>: \<open>None\<close> and the empty dict are both falsy.\<close>

fun or_empty :: "dict option \<Rightarrow> dict" where
  "or_empty None = []"
| "or_empty (Some d) = (if d = [] then [] else d)"

section \<open>SHA-1, HMAC and Base64\<close>

text \<open>
  \<open>hashlib.sha1\<close>, \<open>hmac.new(...).digest()\<close> and \<open>base64.b64encode\<close> are the standard
  algorithms (FIPS 180-4, RFC 2104, RFC 4648). 32-bit words are natural numbers below
  \<open>2 ^ 32\<close>; addition and rotation have the wrap-around written out, as the mask
  \<open>0xFFFFFFFF\<close>.
\<close>

definition add32 :: "nat \<Rightarrow> nat \<Rightarrow> nat" where
  "add32 a b = (a + b) AND 0xFFFFFFFF"

definition rotl32 :: "nat \<Rightarrow> nat \<Rightarrow> nat" where
  "rotl32 n x = (push_bit n x AND 0xFFFFFFFF) OR drop_bit (32 - n) x"

definition not32 :: "nat \<Rightarrow> nat" where
  "not32 x = 0xFFFFFFFF - x"

fun be_words :: "bytes \<Rightarrow> nat list" where
  "be_words (a # b # c # d # r) = (((a * 256 + b) * 256 + c) * 256 + d) # be_words r"
| "be_words _ = []"

definition be32_bytes :: "nat \<Rightarrow> bytes" where
  "be32_bytes w = [w div 16777216, w div 65536 mod 256, w div 256 mod 256, w mod 256]"

definition be64_bytes :: "nat \<Rightarrow> bytes" where
  "be64_bytes n = be32_bytes (n div 4294967296 mod 4294967296) @ be32_bytes (n mod 4294967296)"

text \<open>The length of a list, counted with numerals.\<close>

definition len :: "'a list \<Rightarrow> nat" where
  "len xs = foldl (\<lambda>n _. n + 1) 0 xs"

fun zeros :: "nat \<Rightarrow> bytes" where
  "zeros n = (if n = 0 then [] else 0 # zeros (n - 1))"

declare zeros.simps [simp del]

definition sha1_pad :: "bytes \<Rightarrow> bytes" where
  "sha1_pad m = m @ 128 # zeros ((119 - len m mod 64) mod 64) @ be64_bytes (8 * len m)"

text \<open>
  The message schedule: \<open>schedule n ws\<close> is the next \<open>n\<close> words, \<open>ws\<close> being the
  window of the sixteen words from the current one on.
\<close>

fun schedule :: "nat \<Rightarrow> nat list \<Rightarrow> nat list" where
  "schedule n [w0, w1, w2, w3, w4, w5, w6, w7, w8, w9, w10, w11, w12, w13, w14, w15] =
     (if n = 0 then []
      else w0 # schedule (n - 1)
        [w1, w2, w3, w4, w5, w6, w7, w8, w9, w10, w11, w12, w13, w14, w15,
         rotl32 1 (w13 XOR w8 XOR w2 XOR w0)])"
| "schedule n ws = []"

declare schedule.simps [simp del]

type_synonym sha1_state = "nat \<times> nat \<times> nat \<times> nat \<times> nat"

definition f_ch :: "nat \<Rightarrow> nat \<Rightarrow> nat \<Rightarrow> nat" where
  "f_ch b c d = (b AND c) OR (not32 b AND d)"

definition f_parity :: "nat \<Rightarrow> nat \<Rightarrow> nat \<Rightarrow> nat" where
  "f_parity b c d = b XOR c XOR d"

definition f_maj :: "nat \<Rightarrow> nat \<Rightarrow> nat \<Rightarrow> nat" where
  "f_maj b c d = (b AND c) OR (b AND d) OR (c AND d)"

fun sha1_round ::
  "(nat \<Rightarrow> nat \<Rightarrow> nat \<Rightarrow> nat) \<Rightarrow> nat \<Rightarrow> sha1_state \<Rightarrow> nat \<Rightarrow> sha1_state" where
  "sha1_round f k (a, b, c, d, e) w =
     ((rotl32 5 a + f b c d + e + k + w) AND 0xFFFFFFFF, a, rotl32 30 b, c, d)"

fun add_state :: "sha1_state \<Rightarrow> sha1_state \<Rightarrow> sha1_state" where
  "add_state (h0, h1, h2, h3, h4) (a, b, c, d, e) =
     (add32 h0 a, add32 h1 b, add32 h2 c, add32 h3 d, add32 h4 e)"

definition sha1_block :: "sha1_state \<Rightarrow> bytes \<Rightarrow> sha1_state" where
  "sha1_block h blk =
     (let ws = schedule 80 (be_words blk);
          s1 = foldl (sha1_round f_ch 0x5A827999) h (take 20 ws);
          s2 = foldl (sha1_round f_parity 0x6ED9EBA1) s1 (take 20 (drop 20 ws));
          s3 = foldl (sha1_round f_maj 0x8F1BBCDC) s2 (take 20 (drop 40 ws));
          s4 = foldl (sha1_round f_parity 0xCA62C1D6) s3 (drop 60 ws)
      in add_state h s4)"

fun chunks64 :: "bytes \<Rightarrow> bytes list" where
  "chunks64 [] = []"
| "chunks64 (x # xs) = take 64 (x # xs) # chunks64 (drop 64 (x # xs))"

fun state_bytes :: "sha1_state \<Rightarrow> bytes" where
  "state_bytes (a, b, c, d, e) = concat (map be32_bytes [a, b, c, d, e])"

definition sha1_init :: sha1_state where
  "sha1_init = (0x67452301, 0xEFCDAB89, 0x98BADCFE, 0x10325476, 0xC3D2E1F0)"

definition sha1 :: "bytes \<Rightarrow> bytes" where
  "sha1 m = state_bytes (foldl sha1_block sha1_init (chunks64 (sha1_pad m)))"

definition hmac_sha1 :: "bytes \<Rightarrow> bytes \<Rightarrow> bytes" where
  "hmac_sha1 key msg =
     (let k0 = (if 64 < len key then sha1 key else key);
          k = k0 @ zeros (64 - len k0)
      in sha1 (map (\<lambda>b. b XOR 0x5C) k @ sha1 (map (\<lambda>b. b XOR 0x36) k @ msg)))"

definition b64char :: "nat \<Rightarrow> char" where
  "b64char n = (''ABCDEFGHIJKLMNOPQRSTUVWXYZ'' @ ''abcdefghijklmnopqrstuvwxyz'' @
                ''0123456789'' @ ''+/'') ! n"

fun b64encode :: "bytes \<Rightarrow> string" where
  "b64encode (a # b # c # r) =
     [b64char (a div 4), b64char (a mod 4 * 16 + b div 16),
      b64char (b mod 16 * 4 + c div 64), b64char (c mod 64)] @ b64encode r"
| "b64encode [a, b] =
     [b64char (a div 4), b64char (a mod 4 * 16 + b div 16), b64char (b mod 16 * 4), CHR ''='']"
| "b64encode [a] = [b64char (a div 4), b64char (a mod 4 * 16), CHR ''='', CHR ''='']"
| "b64encode [] = []"

section \<open>The request signer\<close>

text \<open>The four credential constants of the script.\<close>

definition AK :: string where
  "AK = ''qx7UevJ9Ik8VcGTU9wHlgynna''"

definition AKS :: string where
  "AKS = ''Sr6poxYJESoYctndEufjjtjXgXUGz1urinA8K8ADw0yLtcoDt6''"

definition AT :: string where
  "AT = ''2013700835654672388-HUnMlIBkv1KiSKSSjFU3m68gffRHl1''"

definition ATS :: string where
  "ATS = ''pYBAUzVjP4wWesaymDq4EQ3ddlcHqq7LRGoXTeZHJOJVP''"

text \<open>
  \<open>oauth_sign(method, url, extra_params=None)\<close>. The two reads of the environment,
  \<open>int(time.time())\<close> and \<open>secrets.token_hex(16)\<close>, are the arguments \<open>now\<close> and
  \<open>nonce\<close>. The definitions follow the statements of the function one by one.
\<close>

definition oauth_dict :: "nat \<Rightarrow> string \<Rightarrow> dict" where
  "oauth_dict now nonce =
     [(''oauth_consumer_key'', AK), (''oauth_nonce'', nonce),
      (''oauth_signature_method'', ''HMAC-SHA1''), (''oauth_timestamp'', str_nat now),
      (''oauth_token'', AT), (''oauth_version'', ''1.0'')]"

definition all_p :: "dict option \<Rightarrow> nat \<Rightarrow> string \<Rightarrow> dict" where
  "all_p extra_params now nonce = dict_merge (oauth_dict now nonce) (or_empty extra_params)"

definition param_pair :: "string \<times> string \<Rightarrow> string" where
  "param_pair kv = quote (fst kv) @ ''='' @ quote (snd kv)"

definition param_string :: "dict \<Rightarrow> string" where
  "param_string d = join ''&'' (map param_pair (sort d))"

definition base_string :: "string \<Rightarrow> string \<Rightarrow> dict \<Rightarrow> string" where
  "base_string method url d = method @ ''&'' @ quote url @ ''&'' @ quote (param_string d)"

definition signing_key :: string where
  "signing_key = quote AKS @ ''&'' @ quote ATS"

definition sign_base :: "string \<Rightarrow> string" where
  "sign_base bs = b64encode (hmac_sha1 (encode signing_key) (encode bs))"

definition oauth_signature :: "string \<Rightarrow> string \<Rightarrow> dict option \<Rightarrow> nat \<Rightarrow> string \<Rightarrow> string" where
  "oauth_signature method url extra_params now nonce =
     sign_base (base_string method url (all_p extra_params now nonce))"

definition header_fields :: "string \<Rightarrow> string \<Rightarrow> dict option \<Rightarrow> nat \<Rightarrow> string \<Rightarrow> dict" where
  "header_fields method url extra_params now nonce =
     dict_set (oauth_dict now nonce) ''oauth_signature''
       (oauth_signature method url extra_params now nonce)"

definition header_item :: "string \<times> string \<Rightarrow> string" where
  "header_item kv = fst kv @ ''=\"'' @ quote (snd kv) @ ''\"''"

definition render_header :: "dict \<Rightarrow> string" where
  "render_header d = ''OAuth '' @ join '', '' (map header_item d)"

definition oauth_sign :: "string \<Rightarrow> string \<Rightarrow> dict option \<Rightarrow> nat \<Rightarrow> string \<Rightarrow> string" where
  "oauth_sign method url extra_params now nonce =
     render_header (header_fields method url extra_params now nonce)"

text \<open>
  The same function on an explicit store of dict objects (an address is an index of the
  store), to follow which object each statement reads, creates and writes:
  \<open>oauth = {...}\<close> and \<open>{**oauth, **(extra_params or {})}\<close> create objects,
  \<open>extra_params or {}\<close> is the caller's object itself when it is truthy, and
  \<open>oauth["oauth_signature"] = sig\<close> writes to the object \<open>oauth\<close>. The argument
  \<open>extra_params\<close> is \<open>None\<close> or the address of a dict of the caller, which is below
  the length of the store.
\<close>

type_synonym store = "dict list"

definition alloc :: "dict \<Rightarrow> store \<Rightarrow> nat \<times> store" where
  "alloc d h = (length h, h @ [d])"

definition oauth_sign_st ::
  "string \<Rightarrow> string \<Rightarrow> nat option \<Rightarrow> nat \<Rightarrow> string \<Rightarrow> store \<Rightarrow> string \<times> store" where
  "oauth_sign_st method url extra_params now nonce h0 =
     (let (oauth, h1) = alloc (oauth_dict now nonce) h0;
          (src, h2) = (case extra_params of
                         None \<Rightarrow> alloc [] h1
                       | Some r \<Rightarrow> if h1 ! r = [] then alloc [] h1 else (r, h1));
          (allp, h3) = alloc (dict_merge (h2 ! oauth) (h2 ! src)) h2;
          sig = sign_base (base_string method url (h3 ! allp));
          h4 = h3[oauth := dict_set (h3 ! oauth) ''oauth_signature'' sig]
      in (render_header (h4 ! oauth), h4))"

section \<open>Responses, JSON values and printed output\<close>

text \<open>
  A value produced by \<open>json.loads\<close>. An object is the list of its items (looked up with
  \<open>map_of\<close>). Next to the values of the JSON grammar, \<open>json.loads\<close> accepts the
  literals \<open>NaN\<close>, \<open>Infinity\<close> and \<open>-Infinity\<close> and returns the float for each.
  The operations the script applies to such a value raise on the types that do not
  support them, and every raise is a branch of the model.
\<close>

datatype nonfinite = NaN | Infinity | NegInfinity

datatype json = JNull | JBool bool | JInt int | JFloat real | JNonFinite nonfinite
  | JStr string | JArr "json list" | JObj "(string \<times> json) list"

datatype exn = IndexError | KeyError | TypeError | AttributeError | UnicodeDecodeError
  | JSONDecodeError | TransportError

fun truthy :: "json \<Rightarrow> bool" where
  "truthy JNull = False"
| "truthy (JBool b) = b"
| "truthy (JInt n) = (n \<noteq> 0)"
| "truthy (JFloat x) = (x \<noteq> 0)"
| "truthy (JNonFinite x) = True"
| "truthy (JStr s) = (s \<noteq> [])"
| "truthy (JArr xs) = (xs \<noteq> [])"
| "truthy (JObj d) = (d \<noteq> [])"

fun contains :: "string \<Rightarrow> string \<Rightarrow> bool" where
  "contains [] k = (k = [])"
| "contains (c # s) k = (take (length k) (c # s) = k \<or> contains s k)"

text \<open>\<open>k in x\<close>: key of a dict, element of a list, substring of a string.\<close>

fun py_in :: "string \<Rightarrow> json \<Rightarrow> exn + bool" where
  "py_in k (JObj d) = Inr (k \<in> fst ` set d)"
| "py_in k (JArr xs) = Inr (JStr k \<in> set xs)"
| "py_in k (JStr s) = Inr (contains s k)"
| "py_in k _ = Inl TypeError"

text \<open>\<open>x[k]\<close> with a string key.\<close>

fun py_getitem :: "json \<Rightarrow> string \<Rightarrow> exn + json" where
  "py_getitem (JObj d) k = (case map_of d k of None \<Rightarrow> Inl KeyError | Some v \<Rightarrow> Inr v)"
| "py_getitem _ k = Inl TypeError"

text \<open>\<open>x.get(k, default)\<close>: only a dict has the method.\<close>

fun py_get :: "json \<Rightarrow> string \<Rightarrow> json \<Rightarrow> exn + json" where
  "py_get (JObj d) k dflt = Inr (case map_of d k of None \<Rightarrow> dflt | Some v \<Rightarrow> v)"
| "py_get _ k dflt = Inl AttributeError"

text \<open>
  The body of a response, by what \<open>json.loads(r.read().decode())\<close> makes of its bytes:
  bytes that are not UTF-8, on which \<open>decode()\<close> raises \<open>UnicodeDecodeError\<close> before
  anything is parsed; a decoded text that \<open>json.loads\<close> does not accept, on which it
  raises \<open>JSONDecodeError\<close>; or a text that it accepts, given by the value returned.
\<close>

datatype body = Json json | Malformed string | Undecodable bytes

definition loads_decode :: "body \<Rightarrow> exn + json" where
  "loads_decode b =
     (case b of
        Undecodable bs \<Rightarrow> Inl UnicodeDecodeError
      | Malformed raw \<Rightarrow> Inl JSONDecodeError
      | Json data \<Rightarrow> Inr data)"

record response =
  status :: int
  body :: body

text \<open>What is handed to \<open>conn.request\<close> as the body.\<close>

datatype sent_body = Dumps json | Object "json option" | Form string

record request =
  req_method :: string
  req_host :: string
  req_path :: string
  req_body :: sent_body
  authorization :: string
  content_type :: string

text \<open>
  A printed line is the list of the pieces of its f-string: literal text, \<open>str(x)\<close> of a
  JSON value, of an integer, or the module docstring.
\<close>

datatype piece = Txt string | Fmt json | Num int | Doc

type_synonym line = "piece list"

definition ok_mark :: string where
  "ok_mark = [CHR 0xE2, CHR 0x9C, CHR 0x85]"

definition fail_mark :: string where
  "fail_mark = [CHR 0xE2, CHR 0x9D, CHR 0x8C]"

text \<open>The environment of one run: the clock, the nonce source and the HTTPS peer.\<close>

record env =
  now :: nat
  token_hex :: string
  http :: "request \<Rightarrow> exn + response"

datatype outcome = Done | Exit int | Raised exn

text \<open>What a run does: the calls of the signer, the requests, the lines, the end.\<close>

record run =
  signed :: "(string \<times> string \<times> dict option) list"
  sent :: "request list"
  printed :: "line list"
  outcome :: outcome

section \<open>The command dispatcher\<close>

record call =
  call_signed :: "string \<times> string \<times> dict option"
  call_request :: request
  call_result :: "exn + int \<times> json"

text \<open>\<open>api_call(method, path, body, content_type, host, form_params)\<close>\<close>

definition read_json :: "exn + response \<Rightarrow> exn + int \<times> json" where
  "read_json r =
     (case r of Inl e \<Rightarrow> Inl e
      | Inr resp \<Rightarrow>
          (case loads_decode (body resp) of
             Inl x \<Rightarrow> Inl x
           | Inr data \<Rightarrow> Inr (status resp, data)))"

definition api_call ::
  "env \<Rightarrow> string \<Rightarrow> string \<Rightarrow> json option \<Rightarrow> string \<Rightarrow> string \<Rightarrow> dict option \<Rightarrow> call" where
  "api_call e method path bdy ctype host form_params =
     (let url = ''https://'' @ host @ path;
          auth = oauth_sign method url form_params (now e) (token_hex e);
          b = (case bdy of
                 Some j \<Rightarrow> if truthy j \<and> ctype = ''application/json'' then Dumps j
                           else Object bdy
               | None \<Rightarrow> Object bdy);
          req = \<lparr>req_method = method, req_host = host, req_path = path, req_body = b,
                 authorization = auth, content_type = ctype\<rparr>
      in \<lparr>call_signed = (method, url, form_params), call_request = req,
          call_result = read_json (http e req)\<rparr>)"

text \<open>The call with the defaults of the two keyword arguments every caller leaves out.\<close>

definition api_json :: "env \<Rightarrow> string \<Rightarrow> string \<Rightarrow> json option \<Rightarrow> call" where
  "api_json e method path bdy =
     api_call e method path bdy ''application/json'' ''api.twitter.com'' None"

definition after_call :: "call \<Rightarrow> line list \<Rightarrow> outcome \<Rightarrow> run" where
  "after_call c ls out =
     \<lparr>signed = [call_signed c], sent = [call_request c], printed = ls, outcome = out\<rparr>"

text \<open>\<open>tweet(text, reply_to=None)\<close>\<close>

definition tweet_body :: "string \<Rightarrow> string option \<Rightarrow> json" where
  "tweet_body text reply_to =
     (case reply_to of
        Some r \<Rightarrow> if r \<noteq> [] then JObj [(''text'', JStr text),
                       (''reply'', JObj [(''in_reply_to_tweet_id'', JStr r)])]
                  else JObj [(''text'', JStr text)]
      | None \<Rightarrow> JObj [(''text'', JStr text)])"

definition tweet :: "env \<Rightarrow> string \<Rightarrow> string option \<Rightarrow> run" where
  "tweet e text reply_to =
     (let c = api_json e ''POST'' ''/2/tweets'' (Some (tweet_body text reply_to))
      in case call_result c of
           Inl x \<Rightarrow> after_call c [] (Raised x)
         | Inr (st, data) \<Rightarrow>
             (case py_in ''data'' data of
                Inl x \<Rightarrow> after_call c [] (Raised x)
              | Inr True \<Rightarrow>
                  (case py_getitem data ''data'' of
                     Inl x \<Rightarrow> after_call c [] (Raised x)
                   | Inr d \<Rightarrow>
                       (case py_getitem d ''id'' of
                          Inl x \<Rightarrow> after_call c [] (Raised x)
                        | Inr tid \<Rightarrow>
                            after_call c
                              [[Txt (ok_mark @ '' https://x.com/AxiomBot/status/''), Fmt tid]]
                              Done))
              | Inr False \<Rightarrow> after_call c [[Txt (fail_mark @ '' ''), Fmt data]] Done))"

text \<open>
  \<open>like\<close>, \<open>retweet\<close> and \<open>delete\<close> print
  \<open>"... done" if data.get("data", {}).get(flag) else f"... {data}"\<close>.
\<close>

definition flag_report :: "call \<Rightarrow> string \<Rightarrow> string \<Rightarrow> run" where
  "flag_report c flag done =
     (case call_result c of
        Inl x \<Rightarrow> after_call c [] (Raised x)
      | Inr (st, data) \<Rightarrow>
          (case py_get data ''data'' (JObj []) of
             Inl x \<Rightarrow> after_call c [] (Raised x)
           | Inr d \<Rightarrow>
               (case py_get d flag JNull of
                  Inl x \<Rightarrow> after_call c [] (Raised x)
                | Inr v \<Rightarrow>
                    if truthy v then after_call c [[Txt (ok_mark @ done)]] Done
                    else after_call c [[Txt (fail_mark @ '' ''), Fmt data]] Done)))"

definition like :: "env \<Rightarrow> string \<Rightarrow> run" where
  "like e tweet_id =
     flag_report (api_json e ''POST'' ''/2/users/2013700835654672388/likes''
                    (Some (JObj [(''tweet_id'', JStr tweet_id)])))
       ''liked'' '' Liked''"

definition retweet :: "env \<Rightarrow> string \<Rightarrow> run" where
  "retweet e tweet_id =
     flag_report (api_json e ''POST'' ''/2/users/2013700835654672388/retweets''
                    (Some (JObj [(''tweet_id'', JStr tweet_id)])))
       ''retweeted'' '' Retweeted''"

definition delete :: "env \<Rightarrow> string \<Rightarrow> run" where
  "delete e tweet_id =
     flag_report (api_json e ''DELETE'' (''/2/tweets/'' @ tweet_id) None)
       ''deleted'' '' Deleted''"

text \<open>\<open>bio(text)\<close>: the form-encoded call, made without \<open>api_call\<close>.\<close>

definition bio_url :: string where
  "bio_url = ''https://api.twitter.com/1.1/account/update_profile.json''"

definition bio_request :: "env \<Rightarrow> string \<Rightarrow> request" where
  "bio_request e text =
     (let form = quote ''description'' @ ''='' @ quote text;
          auth = oauth_sign ''POST'' bio_url (Some [(''description'', text)])
                   (now e) (token_hex e)
      in \<lparr>req_method = ''POST'', req_host = ''api.twitter.com'',
          req_path = ''/1.1/account/update_profile.json'', req_body = Form form,
          authorization = auth,
          content_type = ''application/x-www-form-urlencoded''\<rparr>)"

definition bio :: "env \<Rightarrow> string \<Rightarrow> run" where
  "bio e text =
     (let req = bio_request e text;
          c = \<lparr>call_signed = (''POST'', bio_url, Some [(''description'', text)]),
               call_request = req, call_result = read_json (http e req)\<rparr>
      in case call_result c of
           Inl x \<Rightarrow> after_call c [] (Raised x)
         | Inr (st, data) \<Rightarrow>
             (case py_get data ''description'' data of
                Inl x \<Rightarrow> after_call c [] (Raised x)
              | Inr v \<Rightarrow> after_call c [[Txt (ok_mark @ '' Bio: ''), Fmt v]] Done))"

text \<open>\<open>dm(recipient_id, text)\<close>\<close>

definition dm_denied :: string where
  "dm_denied = fail_mark @
     '' DM failed (403): No permission. Need elevated API access or user doesn't allow DMs.''"

definition dm :: "env \<Rightarrow> string \<Rightarrow> string \<Rightarrow> run" where
  "dm e recipient_id text =
     (let c = api_json e ''POST'' ''/2/dm_conversations''
                (Some (JObj [(''text'', JStr text),
                             (''participant_ids'', JArr [JStr recipient_id])]));
          sent_line = [Txt (ok_mark @ '' DM sent to '' @ recipient_id)]
      in case call_result c of
           Inl x \<Rightarrow> after_call c [] (Raised x)
         | Inr (st, data) \<Rightarrow>
             (case (if st = 201 then Inr True else py_in ''data'' data) of
                Inl x \<Rightarrow> after_call c [] (Raised x)
              | Inr True \<Rightarrow>
                  (case py_in ''data'' data of
                     Inl x \<Rightarrow> after_call c [sent_line] (Raised x)
                   | Inr False \<Rightarrow> after_call c [sent_line] Done
                   | Inr True \<Rightarrow>
                       (case py_getitem data ''data'' of
                          Inl x \<Rightarrow> after_call c [sent_line] (Raised x)
                        | Inr d \<Rightarrow>
                            (case py_get d ''dm_conversation_id'' (JStr ''unknown'') of
                               Inl x \<Rightarrow> after_call c [sent_line] (Raised x)
                             | Inr v \<Rightarrow>
                                 after_call c
                                   [sent_line, [Txt ''   Conversation: '', Fmt v]] Done)))
              | Inr False \<Rightarrow>
                  if st = 403
                  then after_call c [[Txt dm_denied], [Txt ''   Details: '', Fmt data]] Done
                  else after_call c
                         [[Txt (fail_mark @ '' DM failed (''), Num st, Txt ''): '', Fmt data]]
                         Done))"

text \<open>\<open>dm_to_conversation(conversation_id, text)\<close>\<close>

definition dm_to_conversation :: "env \<Rightarrow> string \<Rightarrow> string \<Rightarrow> run" where
  "dm_to_conversation e conversation_id text =
     (let c = api_json e ''POST'' (''/2/dm_conversations/'' @ conversation_id @ ''/messages'')
                (Some (JObj [(''text'', JStr text)]))
      in case call_result c of
           Inl x \<Rightarrow> after_call c [] (Raised x)
         | Inr (st, data) \<Rightarrow>
             (case (if st = 201 then Inr True else py_in ''data'' data) of
                Inl x \<Rightarrow> after_call c [] (Raised x)
              | Inr True \<Rightarrow>
                  after_call c [[Txt (ok_mark @ '' DM sent to conversation '' @ conversation_id)]]
                    Done
              | Inr False \<Rightarrow>
                  after_call c
                    [[Txt (fail_mark @ '' DM failed (''), Num st, Txt ''): '', Fmt data]]
                    Done))"

text \<open>
  The script body. \<open>sys.argv[i]\<close> raises \<open>IndexError\<close> beyond the end of the list; the
  arguments of a call are evaluated before the call, so a missing one raises before
  anything is signed, sent or printed.
\<close>

definition argv_get :: "string list \<Rightarrow> nat \<Rightarrow> exn + string" where
  "argv_get argv i = (if i < length argv then Inr (argv ! i) else Inl IndexError)"

definition no_call :: "line list \<Rightarrow> outcome \<Rightarrow> run" where
  "no_call ls out = \<lparr>signed = [], sent = [], printed = ls, outcome = out\<rparr>"

definition with_arg :: "string list \<Rightarrow> nat \<Rightarrow> (string \<Rightarrow> run) \<Rightarrow> run" where
  "with_arg argv i f =
     (case argv_get argv i of Inl x \<Rightarrow> no_call [] (Raised x) | Inr a \<Rightarrow> f a)"

definition main :: "env \<Rightarrow> string list \<Rightarrow> run" where
  "main e argv =
     (if length argv < 2 then no_call [[Doc]] (Exit 1)
      else let cmd = argv ! 1 in
        if cmd = ''tweet'' then with_arg argv 2 (\<lambda>a. tweet e a None)
        else if cmd = ''reply'' then
          with_arg argv 3 (\<lambda>a. with_arg argv 2 (\<lambda>b. tweet e a (Some b)))
        else if cmd = ''like'' then with_arg argv 2 (like e)
        else if cmd = ''retweet'' then with_arg argv 2 (retweet e)
        else if cmd = ''delete'' then with_arg argv 2 (delete e)
        else if cmd = ''bio'' then with_arg argv 2 (bio e)
        else if cmd = ''dm'' then with_arg argv 2 (\<lambda>a. with_arg argv 3 (\<lambda>b. dm e a b))
        else if cmd = ''dm-conv'' then
          with_arg argv 2 (\<lambda>a. with_arg argv 3 (\<lambda>b. dm_to_conversation e a b))
        else no_call [[Txt (''Unknown command: '' @ cmd)], [Doc]] Done)"

text \<open>An environment whose peer answers every request with \<open>r\<close>.\<close>

definition answering :: "nat \<Rightarrow> string \<Rightarrow> exn + response \<Rightarrow> env" where
  "answering t n r = \<lparr>now = t, token_hex = n, http = (\<lambda>_. r)\<rparr>"



definition suspended :: json where
  "suspended = JObj [(''errors'', JArr [JObj [(''code'', JInt 64),
     (''message'', JStr ''Your account is suspended and is not permitted to access this feature.'')]])]"


section \<open>Properties of the dispatcher\<close>

lemma outcome_after_call [simp]: "outcome (after_call c ls out) = out"
  and printed_after_call [simp]: "printed (after_call c ls out) = ls"
  and signed_after_call [simp]: "signed (after_call c ls out) = [call_signed c]"
  and sent_after_call [simp]: "sent (after_call c ls out) = [call_request c]"
  by (simp_all add: after_call_def)

lemma outcome_no_call [simp]: "outcome (no_call ls out) = out"
  and printed_no_call [simp]: "printed (no_call ls out) = ls"
  and signed_no_call [simp]: "signed (no_call ls out) = []"
  and sent_no_call [simp]: "sent (no_call ls out) = []"
  by (simp_all add: no_call_def)

subsection \<open>Missing arguments\<close>

text \<open>No command function calls \<open>sys.exit\<close>.\<close>

lemma tweet_no_exit: "outcome (tweet e a r) \<noteq> Exit n"
  by (simp add: tweet_def Let_def split: sum.split prod.split bool.split)

lemma flag_report_no_exit: "outcome (flag_report c f d) \<noteq> Exit n"
  by (simp add: flag_report_def split: sum.split prod.split)

lemma bio_no_exit: "outcome (bio e a) \<noteq> Exit n"
  by (simp add: bio_def Let_def split: sum.split prod.split)

lemma dm_no_exit: "outcome (dm e a b) \<noteq> Exit n"
  by (simp add: dm_def Let_def split: sum.split prod.split bool.split)

lemma dm_to_conversation_no_exit: "outcome (dm_to_conversation e a b) \<noteq> Exit n"
  by (simp add: dm_to_conversation_def Let_def split: sum.split prod.split bool.split)

lemmas no_exit = tweet_no_exit flag_report_no_exit bio_no_exit dm_no_exit
  dm_to_conversation_no_exit

lemma outcome_with_arg:
  "outcome (with_arg argv i f) =
     (if i < length argv then outcome (f (argv ! i)) else Raised IndexError)"
  by (simp add: with_arg_def argv_get_def)

lemma main_exit_iff: "outcome (main e argv) = Exit n \<longleftrightarrow> length argv < 2 \<and> n = 1"
  by (simp add: main_def Let_def like_def retweet_def delete_def outcome_with_arg no_exit)

lemma main_missing:
  assumes "length argv = 2 \<and> argv ! 1 \<in> {''tweet'', ''reply'', ''like'', ''retweet'',
              ''delete'', ''bio'', ''dm'', ''dm-conv''}
           \<or> length argv = 3 \<and> argv ! 1 \<in> {''reply'', ''dm'', ''dm-conv''}"
  shows "main e argv = no_call [] (Raised IndexError)"
  using assms by (auto simp add: main_def with_arg_def argv_get_def)

text \<open>
  Claim C10. An invocation that names a recognised command with fewer positional
  arguments than the command reads (any of the eight with none, or \<open>reply\<close>, \<open>dm\<close>,
  \<open>dm-conv\<close> with one) ends in an uncaught \<open>IndexError\<close>, with nothing signed, sent or
  printed, so without the usage text. With no command at all the usage text is printed,
  and that is the only case in which the script exits through \<open>sys.exit(1)\<close>.
\<close>

theorem main_index_error:
  "(length argv = 2 \<and> argv ! 1 \<in> {''tweet'', ''reply'', ''like'', ''retweet'',
        ''delete'', ''bio'', ''dm'', ''dm-conv''}
      \<or> length argv = 3 \<and> argv ! 1 \<in> {''reply'', ''dm'', ''dm-conv''}
    \<longrightarrow> main e argv = \<lparr>signed = [], sent = [], printed = [], outcome = Raised IndexError\<rparr>)
   \<and> (length argv < 2 \<longrightarrow> printed (main e argv) = [[Doc]])
   \<and> (outcome (main e argv) = Exit 1 \<longleftrightarrow> length argv < 2)"
proof (intro conjI impI)
  assume "length argv = 2 \<and> argv ! 1 \<in> {''tweet'', ''reply'', ''like'', ''retweet'',
        ''delete'', ''bio'', ''dm'', ''dm-conv''}
      \<or> length argv = 3 \<and> argv ! 1 \<in> {''reply'', ''dm'', ''dm-conv''}"
  then show "main e argv = \<lparr>signed = [], sent = [], printed = [], outcome = Raised IndexError\<rparr>"
    using main_missing [of argv e] by (simp add: no_call_def)
next
  assume "length argv < 2"
  then show "printed (main e argv) = [[Doc]]" by (simp add: main_def)
next
  show "outcome (main e argv) = Exit 1 \<longleftrightarrow> length argv < 2"
    by (simp add: main_exit_iff)
qed

theorem main_index_error_witness:
  "main (answering 0 [] (Inl TransportError)) [''twitter-api.py'', ''tweet'']
     = \<lparr>signed = [], sent = [], printed = [], outcome = Raised IndexError\<rparr>
   \<and> main (answering 0 [] (Inl TransportError)) [''twitter-api.py'', ''dm'', ''12345'']
     = \<lparr>signed = [], sent = [], printed = [], outcome = Raised IndexError\<rparr>
   \<and> printed (main (answering 0 [] (Inl TransportError)) [''twitter-api.py'']) = [[Doc]]
   \<and> outcome (main (answering 0 [] (Inl TransportError)) [''twitter-api.py'']) = Exit 1"
  using main_index_error [of "[''twitter-api.py'', ''tweet'']" "answering 0 [] (Inl TransportError)"]
    main_index_error [of "[''twitter-api.py'', ''dm'', ''12345'']" "answering 0 [] (Inl TransportError)"]
    main_index_error [of "[''twitter-api.py'']" "answering 0 [] (Inl TransportError)"]
  by simp

subsection \<open>What each command hands to the signer\<close>

lemma call_api_json [simp]:
  "call_signed (api_json e m p b) = (m, ''https://api.twitter.com'' @ p, None)"
  "authorization (call_request (api_json e m p b)) =
     oauth_sign m (''https://api.twitter.com'' @ p) None (now e) (token_hex e)"
  "call_result (api_json e m p b) = read_json (http e (call_request (api_json e m p b)))"
  by (simp_all add: api_json_def api_call_def Let_def)

lemma signed_flag_report [simp]: "signed (flag_report c f d) = [call_signed c]"
  and sent_flag_report [simp]: "sent (flag_report c f d) = [call_request c]"
  by (simp_all add: flag_report_def split: sum.split prod.split)

lemma signed_tweet: "signed (tweet e text r) = [(''POST'', ''https://api.twitter.com/2/tweets'', None)]"
  and sent_tweet: "sent (tweet e text r) = [call_request (api_json e ''POST'' ''/2/tweets'' (Some (tweet_body text r)))]"
  by (simp_all add: tweet_def Let_def split: sum.split prod.split bool.split)

lemma signed_dm: "signed (dm e rid text) = [(''POST'', ''https://api.twitter.com/2/dm_conversations'', None)]"
  and sent_dm: "sent (dm e rid text) = [call_request (api_json e ''POST'' ''/2/dm_conversations''
        (Some (JObj [(''text'', JStr text), (''participant_ids'', JArr [JStr rid])])))]"
  by (simp_all add: dm_def Let_def split: sum.split prod.split bool.split)

lemma signed_dm_to_conversation:
  "signed (dm_to_conversation e cid text) =
     [(''POST'', ''https://api.twitter.com/2/dm_conversations/'' @ cid @ ''/messages'', None)]"
  and sent_dm_to_conversation:
  "sent (dm_to_conversation e cid text) =
     [call_request (api_json e ''POST'' (''/2/dm_conversations/'' @ cid @ ''/messages'')
        (Some (JObj [(''text'', JStr text)])))]"
  by (simp_all add: dm_to_conversation_def Let_def split: sum.split prod.split bool.split)

lemma signed_bio: "signed (bio e text) = [(''POST'', bio_url, Some [(''description'', text)])]"
  and auth_bio: "map authorization (sent (bio e text)) =
     [oauth_sign ''POST'' bio_url (Some [(''description'', text)]) (now e) (token_hex e)]"
  and sent_bio: "sent (bio e text) = [bio_request e text]"
  by (simp_all add: bio_def bio_request_def Let_def split: sum.split prod.split)

text \<open>The form body of \<open>bio\<close> is the one field that is signed.\<close>

lemma bio_form_sent:
  "map req_body (sent (bio e text)) = [Form (''description='' @ quote text)]"
  by (simp add: sent_bio bio_request_def Let_def quote_def quote_byte_def always_safe_def)

lemma all_p_None: "all_p None t n = oauth_dict t n"
  by (simp add: all_p_def dict_merge_def)

lemma all_p_description:
  "all_p (Some [(''description'', text)]) t n = oauth_dict t n @ [(''description'', text)]"
  by (simp add: all_p_def dict_merge_def oauth_dict_def)

text \<open>
  Claim C5. Each command calls the signer once, with the method and URL of its request.
  The seven calls with a JSON body (or none) pass no \<open>extra_params\<close>, so the signed
  parameter set is the six OAuth fields and does not depend on the body; \<open>bio\<close> passes
  exactly the dict with the one form field \<open>description\<close>. The header sent with the
  request is the signer's result for those arguments.
\<close>

theorem signed_parameter_sets:
  "signed (tweet e text r) = [(''POST'', ''https://api.twitter.com/2/tweets'', None)]
   \<and> signed (like e i) = [(''POST'', ''https://api.twitter.com/2/users/2013700835654672388/likes'', None)]
   \<and> signed (retweet e i) = [(''POST'', ''https://api.twitter.com/2/users/2013700835654672388/retweets'', None)]
   \<and> signed (delete e i) = [(''DELETE'', ''https://api.twitter.com/2/tweets/'' @ i, None)]
   \<and> signed (dm e i text) = [(''POST'', ''https://api.twitter.com/2/dm_conversations'', None)]
   \<and> signed (dm_to_conversation e i text) =
        [(''POST'', ''https://api.twitter.com/2/dm_conversations/'' @ i @ ''/messages'', None)]
   \<and> signed (bio e text) =
        [(''POST'', ''https://api.twitter.com/1.1/account/update_profile.json'',
          Some [(''description'', text)])]
   \<and> map authorization (sent (tweet e text r)) =
        [oauth_sign ''POST'' ''https://api.twitter.com/2/tweets'' None (now e) (token_hex e)]
   \<and> map authorization (sent (like e i)) =
        [oauth_sign ''POST'' ''https://api.twitter.com/2/users/2013700835654672388/likes'' None
           (now e) (token_hex e)]
   \<and> map authorization (sent (retweet e i)) =
        [oauth_sign ''POST'' ''https://api.twitter.com/2/users/2013700835654672388/retweets'' None
           (now e) (token_hex e)]
   \<and> map authorization (sent (delete e i)) =
        [oauth_sign ''DELETE'' (''https://api.twitter.com/2/tweets/'' @ i) None (now e) (token_hex e)]
   \<and> map authorization (sent (dm e i text)) =
        [oauth_sign ''POST'' ''https://api.twitter.com/2/dm_conversations'' None (now e) (token_hex e)]
   \<and> map authorization (sent (dm_to_conversation e i text)) =
        [oauth_sign ''POST'' (''https://api.twitter.com/2/dm_conversations/'' @ i @ ''/messages'') None
           (now e) (token_hex e)]
   \<and> map authorization (sent (bio e text)) =
        [oauth_sign ''POST'' ''https://api.twitter.com/1.1/account/update_profile.json''
           (Some [(''description'', text)]) (now e) (token_hex e)]
   \<and> all_p None (now e) (token_hex e) = oauth_dict (now e) (token_hex e)
   \<and> all_p (Some [(''description'', text)]) (now e) (token_hex e) =
        oauth_dict (now e) (token_hex e) @ [(''description'', text)]"
  by (simp add: signed_tweet sent_tweet signed_dm sent_dm signed_dm_to_conversation
      sent_dm_to_conversation signed_bio auth_bio [unfolded bio_url_def] bio_url_def
      like_def retweet_def delete_def all_p_None all_p_description)

subsection \<open>Responses that are not JSON\<close>

lemma read_json_raises:
  "http e req = Inr resp \<Longrightarrow> loads_decode (body resp) = Inl x \<Longrightarrow> read_json (http e req) = Inl x"
  by (simp add: read_json_def)










subsection \<open>The line printed by bio\<close>

text \<open>Whatever the response, \<open>bio\<close> prints no line with the failure mark.\<close>

lemma bio_never_fail_mark:
  "printed (bio e text) = [] \<or> (\<exists>v. printed (bio e text) = [[Txt (ok_mark @ '' Bio: ''), Fmt v]])"
  by (simp add: bio_def Let_def split: sum.split prod.split)

text \<open>
  Claim C7 at a response without a description: an HTTP 403 whose body is an error
  object. The one line printed carries the success mark, followed by the payload.
\<close>

theorem bio_prints_ok_mark_on_error:
  "printed (bio (answering 1700000000 ''000102030405060708090a0b0c0d0e0f''
       (Inr \<lparr>status = 403, body = Json suspended\<rparr>)) ''new bio'')
     = [[Txt (ok_mark @ '' Bio: ''), Fmt suspended]]
   \<and> py_in ''description'' suspended = Inr False"
  by (simp add: bio_def Let_def read_json_def loads_decode_def answering_def suspended_def)

subsection \<open>Permission denied on a direct message\<close>




section \<open>Properties of the signer\<close>

subsection \<open>Dictionaries and the order of the parameters\<close>

lemma map_of_dict_set: "map_of (dict_set d k v) = (map_of d)(k \<mapsto> v)"
  by (induction d) (auto simp: fun_eq_iff)

lemma keys_dict_set: "fst ` set (dict_set d k v) = insert k (fst ` set d)"
  by (simp add: dom_map_of_conv_image_fst [symmetric] map_of_dict_set)

lemma distinct_dict_set: "distinct (map fst d) \<Longrightarrow> distinct (map fst (dict_set d k v))"
  by (induction d) (auto simp: keys_dict_set)

lemma dict_merge_Cons: "dict_merge a ((k, v) # b) = dict_merge (dict_set a k v) b"
  by (simp add: dict_merge_def)

lemma distinct_dict_merge: "distinct (map fst a) \<Longrightarrow> distinct (map fst (dict_merge a b))"
proof (induction b arbitrary: a)
  case Nil
  then show ?case by (simp add: dict_merge_def)
next
  case (Cons kv b)
  obtain k v where kv: "kv = (k, v)" by (cases kv)
  from Cons.prems have "distinct (map fst (dict_set a k v))" by (rule distinct_dict_set)
  then show ?case unfolding kv dict_merge_Cons by (rule Cons.IH)
qed

lemma map_of_dict_merge:
  "distinct (map fst b) \<Longrightarrow> map_of (dict_merge a b) = map_of a ++ map_of b"
proof (induction b arbitrary: a)
  case Nil
  then show ?case by (simp add: dict_merge_def)
next
  case (Cons kv b)
  obtain k v where kv: "kv = (k, v)" by (cases kv)
  from Cons.prems have k: "map_of b k = None" and d: "distinct (map fst b)"
    by (auto simp: kv map_of_eq_None_iff)
  have "map_of (dict_merge a (kv # b)) = map_of (dict_set a k v) ++ map_of b"
    unfolding kv dict_merge_Cons by (rule Cons.IH [OF d])
  also have "\<dots> = (map_of a)(k \<mapsto> v) ++ map_of b"
    by (simp only: map_of_dict_set)
  also have "\<dots> = map_of a ++ map_of (kv # b)"
    using k by (auto simp: kv fun_eq_iff map_add_def split: option.split)
  finally show ?case .
qed

lemma distinct_oauth_dict: "distinct (map fst (oauth_dict t n))"
  by (simp add: oauth_dict_def)

lemma sort_all_p_cong:
  assumes "distinct (map fst (or_empty x1))" and "distinct (map fst (or_empty x2))"
    and "map_of (or_empty x1) = map_of (or_empty x2)"
  shows "sort (all_p x1 t n) = sort (all_p x2 t n)"
proof (rule sorted_distinct_set_unique)
  have d1: "distinct (map fst (all_p x1 t n))" and d2: "distinct (map fst (all_p x2 t n))"
    by (simp_all add: all_p_def distinct_dict_merge distinct_oauth_dict)
  have "map_of (all_p x1 t n) = map_of (all_p x2 t n)"
    by (simp add: all_p_def map_of_dict_merge assms)
  with d1 d2 have s: "set (all_p x1 t n) = set (all_p x2 t n)"
    by (simp add: map_of_inject_set)
  then show "set (sort (all_p x1 t n)) = set (sort (all_p x2 t n))" by simp
  from d1 show "distinct (sort (all_p x1 t n))" by (simp add: distinct_map)
  from d2 show "distinct (sort (all_p x2 t n))" by (simp add: distinct_map)
qed simp_all

text \<open>
  Claim C3. With the timestamp and the nonce fixed, the result of the signer is
  determined by the parameter mapping: two dicts with the same items, in whatever
  insertion order (and \<open>None\<close> or the empty dict alike), give the same sorted
  parameter string, the same signature and the same header, character for character.
\<close>

theorem oauth_sign_deterministic:
  assumes "distinct (map fst (or_empty x1))" and "distinct (map fst (or_empty x2))"
    and "map_of (or_empty x1) = map_of (or_empty x2)"
  shows "param_string (all_p x1 t n) = param_string (all_p x2 t n)
    \<and> oauth_signature method url x1 t n = oauth_signature method url x2 t n
    \<and> oauth_sign method url x1 t n = oauth_sign method url x2 t n"
  using sort_all_p_cong [OF assms, of t n]
  by (simp add: param_string_def base_string_def oauth_signature_def header_fields_def
      oauth_sign_def)

theorem oauth_sign_deterministic_witness:
  "param_string (all_p (Some [(''status'', ''hi''), (''description'', ''x'')]) 1700000000 ''00'')
     = param_string (all_p (Some [(''description'', ''x''), (''status'', ''hi'')]) 1700000000 ''00'')
   \<and> oauth_sign ''POST'' ''https://api.twitter.com/x'' (Some []) 1700000000 ''00''
     = oauth_sign ''POST'' ''https://api.twitter.com/x'' None 1700000000 ''00''"
proof -
  have m: "map_of (or_empty (Some [(''status'', ''hi''), (''description'', ''x'')]))
         = map_of (or_empty (Some [(''description'', ''x''), (''status'', ''hi'')]))"
    by (auto simp: fun_eq_iff)
  from oauth_sign_deterministic [of "Some [(''status'', ''hi''), (''description'', ''x'')]"
      "Some [(''description'', ''x''), (''status'', ''hi'')]" 1700000000 "''00''" "''POST''"
      "''https://api.twitter.com/x''", OF _ _ m]
    oauth_sign_deterministic [of "Some []" None 1700000000 "''00''" "''POST''"
      "''https://api.twitter.com/x''"]
  show ?thesis by simp
qed

subsection \<open>The fields of the header\<close>

lemma header_fields_eq:
  "header_fields method url x t n =
     [(''oauth_consumer_key'', AK), (''oauth_nonce'', n),
      (''oauth_signature_method'', ''HMAC-SHA1''), (''oauth_timestamp'', str_nat t),
      (''oauth_token'', AT), (''oauth_version'', ''1.0''),
      (''oauth_signature'', oauth_signature method url x t n)]"
  by (simp add: header_fields_def oauth_dict_def)

lemma of_char_less_256: "of_char c < (256::nat)"
proof -
  have "(of_char c :: nat) = of_char c mod 256" by simp
  also have "\<dots> < 256" by (rule mod_less_divisor) simp
  finally show ?thesis .
qed

lemma hexdigit_inj: "a < 16 \<Longrightarrow> b < 16 \<Longrightarrow> hexdigit a = hexdigit b \<Longrightarrow> a = b"
  unfolding hexdigit_def by (subst (asm) nth_eq_iff_index_eq) simp_all

lemma percent_not_safe: "CHR ''%'' \<notin> always_safe"
  by (simp add: always_safe_def)

lemma quote_byte_inj:
  assumes "quote_byte c @ r = quote_byte d @ s"
  shows "c = d \<and> r = s"
proof -
  have lt: "of_char x div 16 < (16::nat)" "of_char x mod 16 < (16::nat)" for x
    using of_char_less_256 [of x] by arith+
  show ?thesis
  proof (cases "c \<in> always_safe"; cases "d \<in> always_safe")
    assume "c \<notin> always_safe" "d \<notin> always_safe"
    with assms have "hexdigit (of_char c div 16) = hexdigit (of_char d div 16)"
      and "hexdigit (of_char c mod 16) = hexdigit (of_char d mod 16)" and rs: "r = s"
      by (simp_all add: quote_byte_def)
    then have "(of_char c :: nat) div 16 = of_char d div 16"
      and "(of_char c :: nat) mod 16 = of_char d mod 16"
      using lt by (auto dest: hexdigit_inj [rotated 2])
    then have "(of_char c :: nat) = of_char d"
      by (metis div_mult_mod_eq)
    then show ?thesis using rs by simp
  qed (use assms percent_not_safe in \<open>auto simp: quote_byte_def\<close>)
qed

lemma quote_Nil: "quote [] = []"
  by (simp add: quote_def)

lemma quote_Cons: "quote (c # s) = quote_byte c @ quote s"
  by (simp add: quote_def)

lemma quote_byte_not_Nil: "quote_byte c \<noteq> []"
  by (simp add: quote_byte_def)

lemma quote_inj: "quote s = quote t \<Longrightarrow> s = t"
proof (induction s arbitrary: t)
  case Nil
  show ?case
  proof (cases t)
    case (Cons d t')
    with Nil have "quote_byte d @ quote t' = []" by (simp add: quote_Nil quote_Cons)
    then show ?thesis by (simp add: quote_byte_not_Nil)
  qed simp
next
  case (Cons c s)
  show ?case
  proof (cases t)
    case Nil
    with Cons.prems have "quote_byte c @ quote s = []" by (simp add: quote_Nil quote_Cons)
    then show ?thesis by (simp add: quote_byte_not_Nil)
  next
    case (Cons d t')
    with Cons.prems have "quote_byte c @ quote s = quote_byte d @ quote t'"
      by (simp add: quote_Cons)
    then have "c = d" "quote s = quote t'" by (auto dest: quote_byte_inj)
    with Cons.IH Cons show ?thesis by simp
  qed
qed

text \<open>
  Claim C4. The header has seven fields, in a fixed order. Two runs on the same request
  and timestamp give headers whose rendered fields agree at every position except those
  of \<open>oauth_nonce\<close> (position 1) and \<open>oauth_signature\<close> (position 6); with different
  nonces the nonce field does differ, and with the same nonce the headers are identical.
\<close>

theorem fresh_nonce_changes_two_fields:
  "map fst (header_fields method url x t n1) = map fst (header_fields method url x t n2)
   \<and> length (header_fields method url x t n1) = 7
   \<and> (\<forall>i < 7. i \<noteq> 1 \<and> i \<noteq> 6 \<longrightarrow>
        map header_item (header_fields method url x t n1) ! i
          = map header_item (header_fields method url x t n2) ! i)
   \<and> fst (header_fields method url x t n1 ! 1) = ''oauth_nonce''
   \<and> fst (header_fields method url x t n1 ! 6) = ''oauth_signature''
   \<and> (n1 \<noteq> n2 \<longrightarrow> map header_item (header_fields method url x t n1) ! 1
          \<noteq> map header_item (header_fields method url x t n2) ! 1)
   \<and> (n1 = n2 \<longrightarrow> oauth_sign method url x t n1 = oauth_sign method url x t n2)"
proof -
  have "map header_item (header_fields method url x t n1) ! i
          = map header_item (header_fields method url x t n2) ! i"
    if "i < 7" "i \<noteq> 1" "i \<noteq> 6" for i
  proof -
    from that have "i = 0 \<or> i = 2 \<or> i = 3 \<or> i = 4 \<or> i = 5" by arith
    then show ?thesis by (auto simp: header_fields_eq)
  qed
  then have "\<forall>i < 7. i \<noteq> 1 \<and> i \<noteq> 6 \<longrightarrow>
        map header_item (header_fields method url x t n1) ! i
          = map header_item (header_fields method url x t n2) ! i"
    by blast
  moreover have "n1 \<noteq> n2 \<longrightarrow> map header_item (header_fields method url x t n1) ! 1
          \<noteq> map header_item (header_fields method url x t n2) ! 1"
    by (auto simp: header_fields_eq header_item_def dest: quote_inj)
  ultimately show ?thesis by (simp add: header_fields_eq)
qed

theorem fresh_nonce_changes_two_fields_witness:
  "map header_item (header_fields ''POST'' ''https://api.twitter.com/2/tweets'' None 1700000000 ''aa'') ! 3
     = map header_item (header_fields ''POST'' ''https://api.twitter.com/2/tweets'' None 1700000000 ''bb'') ! 3
   \<and> map header_item (header_fields ''POST'' ''https://api.twitter.com/2/tweets'' None 1700000000 ''aa'') ! 1
     \<noteq> map header_item (header_fields ''POST'' ''https://api.twitter.com/2/tweets'' None 1700000000 ''bb'') ! 1"
proof -
  note T = fresh_nonce_changes_two_fields [of "''POST''" "''https://api.twitter.com/2/tweets''"
      None 1700000000 "''aa''" "''bb''"]
  from T have a: "\<forall>i < 7. i \<noteq> 1 \<and> i \<noteq> 6 \<longrightarrow>
      map header_item (header_fields ''POST'' ''https://api.twitter.com/2/tweets'' None
        1700000000 ''aa'') ! i
      = map header_item (header_fields ''POST'' ''https://api.twitter.com/2/tweets'' None
        1700000000 ''bb'') ! i"
    by blast
  from T have b: "''aa'' \<noteq> ''bb'' \<longrightarrow>
      map header_item (header_fields ''POST'' ''https://api.twitter.com/2/tweets'' None
        1700000000 ''aa'') ! 1
      \<noteq> map header_item (header_fields ''POST'' ''https://api.twitter.com/2/tweets'' None
        1700000000 ''bb'') ! 1"
    by blast
  have "(3::nat) < 7 \<and> (3::nat) \<noteq> 1 \<and> (3::nat) \<noteq> 6" by simp
  with a have "map header_item (header_fields ''POST'' ''https://api.twitter.com/2/tweets'' None
        1700000000 ''aa'') ! 3
      = map header_item (header_fields ''POST'' ''https://api.twitter.com/2/tweets'' None
        1700000000 ''bb'') ! 3"
    by blast
  moreover from b have "map header_item (header_fields ''POST''
        ''https://api.twitter.com/2/tweets'' None 1700000000 ''aa'') ! 1
      \<noteq> map header_item (header_fields ''POST'' ''https://api.twitter.com/2/tweets'' None
        1700000000 ''bb'') ! 1"
    by simp
  ultimately show ?thesis by (rule conjI)
qed

subsection \<open>The store\<close>

text \<open>
  Claim C9. On the store, the signer leaves every object that existed before the call
  as it was, in particular the caller's \<open>extra_params\<close>: its writes go to the objects
  it creates. Its result is that of \<open>oauth_sign\<close> on the contents of \<open>extra_params\<close>.
\<close>

theorem oauth_sign_st_frame:
  "take (length h) (snd (oauth_sign_st method url ep t n h)) = h
   \<and> (\<forall>r < length h. snd (oauth_sign_st method url ep t n h) ! r = h ! r)
   \<and> (ep = None \<longrightarrow> fst (oauth_sign_st method url ep t n h) = oauth_sign method url None t n)
   \<and> (\<forall>r < length h. ep = Some r \<longrightarrow>
        fst (oauth_sign_st method url ep t n h) = oauth_sign method url (Some (h ! r)) t n)"
  by (auto simp: oauth_sign_st_def alloc_def Let_def nth_append oauth_sign_def header_fields_def
      oauth_signature_def all_p_def split: option.split)


theorem oauth_sign_st_frame_witness:
  "snd (oauth_sign_st ''POST'' bio_url (Some 0) 1700000000 ''00'' [[(''description'', ''x'')]]) ! 0
     = [(''description'', ''x'')]
   \<and> fst (oauth_sign_st ''POST'' bio_url (Some 0) 1700000000 ''00'' [[(''description'', ''x'')]])
     = oauth_sign ''POST'' bio_url (Some [(''description'', ''x'')]) 1700000000 ''00''"
proof -
  note T = oauth_sign_st_frame [of "[[(''description'', ''x'')]]" "''POST''" bio_url "Some 0"
      1700000000 "''00''"]
  have l: "(0::nat) < length [[(''description'', ''x'')]]" by simp
  from T l have "snd (oauth_sign_st ''POST'' bio_url (Some 0) 1700000000 ''00''
      [[(''description'', ''x'')]]) ! 0 = [[(''description'', ''x'')]] ! 0"
    by blast
  moreover from T l have "fst (oauth_sign_st ''POST'' bio_url (Some 0) 1700000000 ''00''
      [[(''description'', ''x'')]])
    = oauth_sign ''POST'' bio_url (Some ([[(''description'', ''x'')]] ! 0)) 1700000000 ''00''"
    by blast
  ultimately show ?thesis by simp
qed

subsection \<open>The order of the parameter string\<close>

lemmas quote_eval = quote_def quote_byte_def always_safe_def hexdigit_def

text \<open>
  Claim C2 at the parameters \<open>{"/": "2", "-": "1"}\<close>. The items are sorted as they
  are, before they are encoded: \<open>-\<close> comes before \<open>/\<close>, although the encoded key
  \<open>%2F\<close> is smaller than \<open>-\<close>.
\<close>

theorem param_string_sorted_before_encoding:
  "param_string (all_p (Some [(''/'', ''2''), (''-'', ''1'')]) 1700000000
      ''000102030405060708090a0b0c0d0e0f'')
     = ''-=1&%2F=2&oauth_consumer_key=qx7UevJ9Ik8VcGTU9wHlgynna'' @
       ''&oauth_nonce=000102030405060708090a0b0c0d0e0f&oauth_signature_method=HMAC-SHA1'' @
       ''&oauth_timestamp=1700000000'' @
       ''&oauth_token=2013700835654672388-HUnMlIBkv1KiSKSSjFU3m68gffRHl1&oauth_version=1.0''
   \<and> quote ''/'' < quote ''-''"
  by (simp add: quote_eval all_p_def dict_merge_def oauth_dict_def param_string_def
      param_pair_def AK_def AT_def str_nat.simps)

subsection \<open>The reference signature\<close>

text \<open>
  Evaluation of the hash: one lemma for each 64-byte block, then the three hashes of
  the HMAC of the base string of the reference request.
\<close>

lemmas sha1_block_eval = sha1_block_def Let_def schedule.simps add32_def rotl32_def not32_def
  f_ch_def f_parity_def f_maj_def

lemmas sha1_eval = sha1_def sha1_init_def sha1_pad_def len_def zeros.simps be64_bytes_def
  be32_bytes_def

lemma sha1_block_1:
  "sha1_block (1732584193, 4023233417, 2562383102, 271733878, 3285377520)
     [83, 114, 54, 112, 111, 120, 89, 74, 69, 83, 111, 89, 99, 116, 110, 100, 69, 117,
      102, 106, 106, 116, 106, 88, 103, 88, 85, 71, 122, 49, 117, 114, 105, 110, 65, 56,
      75, 56, 65, 68, 119, 48, 121, 76, 116, 99, 111, 68, 116, 54, 38, 112, 89, 66, 65,
      85, 122, 86, 106, 80, 52, 119, 87, 101]
   = (141714583, 1858186776, 3222265618, 4085929063, 2318624821)"
  by (simp add: sha1_block_eval)

lemma sha1_block_2:
  "sha1_block (141714583, 1858186776, 3222265618, 4085929063, 2318624821)
     [115, 97, 121, 109, 68, 113, 52, 69, 81, 51, 100, 100, 108, 99, 72, 113, 113, 55,
      76, 82, 71, 111, 88, 84, 101, 90, 72, 74, 79, 74, 86, 80, 128, 0, 0, 0, 0, 0, 0, 0,
      0, 0, 0, 0, 0, 0, 0, 0, 0, 0, 0, 0, 0, 0, 0, 0, 0, 0, 0, 0, 0, 0, 3, 0]
   = (418389121, 3435148127, 279625142, 1086342677, 1187776299)"
  by (simp add: sha1_block_eval)

lemma sha1_block_3:
  "sha1_block (1732584193, 4023233417, 2562383102, 271733878, 3285377520)
     [46, 198, 42, 183, 250, 246, 5, 105, 38, 156, 139, 128, 118, 246, 112, 35, 112, 250,
      49, 29, 54, 54, 54, 54, 54, 54, 54, 54, 54, 54, 54, 54, 54, 54, 54, 54, 54, 54, 54,
      54, 54, 54, 54, 54, 54, 54, 54, 54, 54, 54, 54, 54, 54, 54, 54, 54, 54, 54, 54, 54,
      54, 54, 54, 54]
   = (1864800208, 3648499413, 83385502, 468307282, 3710411146)"
  by (simp add: sha1_block_eval)

lemma sha1_block_4:
  "sha1_block (1864800208, 3648499413, 83385502, 468307282, 3710411146)
     [80, 79, 83, 84, 38, 104, 116, 116, 112, 115, 37, 51, 65, 37, 50, 70, 37, 50, 70,
      97, 112, 105, 46, 101, 120, 97, 109, 112, 108, 101, 46, 99, 111, 109, 37, 50, 70,
      50, 37, 50, 70, 116, 119, 101, 101, 116, 115, 38, 111, 97, 117, 116, 104, 95, 99,
      111, 110, 115, 117, 109, 101, 114, 95, 107]
   = (411063502, 3266713132, 1092773115, 1186311355, 2535288913)"
  by (simp add: sha1_block_eval)

lemma sha1_block_5:
  "sha1_block (411063502, 3266713132, 1092773115, 1186311355, 2535288913)
     [101, 121, 37, 51, 68, 113, 120, 55, 85, 101, 118, 74, 57, 73, 107, 56, 86, 99, 71,
      84, 85, 57, 119, 72, 108, 103, 121, 110, 110, 97, 37, 50, 54, 111, 97, 117, 116,
      104, 95, 110, 111, 110, 99, 101, 37, 51, 68, 48, 48, 48, 49, 48, 50, 48, 51, 48,
      52, 48, 53, 48, 54, 48, 55, 48]
   = (3377676787, 440602422, 2929081900, 411020109, 1943607594)"
  by (simp add: sha1_block_eval)

lemma sha1_block_6:
  "sha1_block (3377676787, 440602422, 2929081900, 411020109, 1943607594)
     [56, 48, 57, 48, 97, 48, 98, 48, 99, 48, 100, 48, 101, 48, 102, 37, 50, 54, 111, 97,
      117, 116, 104, 95, 115, 105, 103, 110, 97, 116, 117, 114, 101, 95, 109, 101, 116,
      104, 111, 100, 37, 51, 68, 72, 77, 65, 67, 45, 83, 72, 65, 49, 37, 50, 54, 111, 97,
      117, 116, 104, 95, 116, 105, 109]
   = (2805957855, 510328642, 1144622899, 1034527343, 3493424216)"
  by (simp add: sha1_block_eval)

lemma sha1_block_7:
  "sha1_block (2805957855, 510328642, 1144622899, 1034527343, 3493424216)
     [101, 115, 116, 97, 109, 112, 37, 51, 68, 49, 55, 48, 48, 48, 48, 48, 48, 48, 48,
      37, 50, 54, 111, 97, 117, 116, 104, 95, 116, 111, 107, 101, 110, 37, 51, 68, 50,
      48, 49, 51, 55, 48, 48, 56, 51, 53, 54, 53, 52, 54, 55, 50, 51, 56, 56, 45, 72, 85,
      110, 77, 108, 73, 66, 107]
   = (2823356598, 3096232935, 3171022778, 631247735, 4171464752)"
  by (simp add: sha1_block_eval)

lemma sha1_block_8:
  "sha1_block (2823356598, 3096232935, 3171022778, 631247735, 4171464752)
     [118, 49, 75, 105, 83, 75, 83, 83, 106, 70, 85, 51, 109, 54, 56, 103, 102, 102, 82,
      72, 108, 49, 37, 50, 54, 111, 97, 117, 116, 104, 95, 118, 101, 114, 115, 105, 111,
      110, 37, 51, 68, 49, 46, 48, 128, 0, 0, 0, 0, 0, 0, 0, 0, 0, 0, 0, 0, 0, 0, 0, 0,
      0, 11, 96]
   = (2450581499, 163887404, 1006887223, 3736328220, 1102878068)"
  by (simp add: sha1_block_eval)

lemma sha1_block_9:
  "sha1_block (1732584193, 4023233417, 2562383102, 271733878, 3285377520)
     [68, 172, 64, 221, 144, 156, 111, 3, 76, 246, 225, 234, 28, 156, 26, 73, 26, 144,
      91, 119, 92, 92, 92, 92, 92, 92, 92, 92, 92, 92, 92, 92, 92, 92, 92, 92, 92, 92,
      92, 92, 92, 92, 92, 92, 92, 92, 92, 92, 92, 92, 92, 92, 92, 92, 92, 92, 92, 92, 92,
      92, 92, 92, 92, 92]
   = (1759815817, 1119269504, 3823224, 4172284479, 1801717321)"
  by (simp add: sha1_block_eval)

lemma sha1_block_10:
  "sha1_block (1759815817, 1119269504, 3823224, 4172284479, 1801717321)
     [146, 16, 231, 251, 9, 196, 185, 44, 60, 3, 225, 55, 222, 179, 216, 28, 65, 188,
      149, 116, 128, 0, 0, 0, 0, 0, 0, 0, 0, 0, 0, 0, 0, 0, 0, 0, 0, 0, 0, 0, 0, 0, 0, 0,
      0, 0, 0, 0, 0, 0, 0, 0, 0, 0, 0, 0, 0, 0, 0, 0, 0, 0, 2, 160]
   = (2516667678, 3154047770, 2461965891, 4006349318, 3740869506)"
  by (simp add: sha1_block_eval)

lemma sha1_block_11:
  "sha1_block (1732584193, 4023233417, 2562383102, 271733878, 3285377520)
     [97, 98, 99, 128, 0, 0, 0, 0, 0, 0, 0, 0, 0, 0, 0, 0, 0, 0, 0, 0, 0, 0, 0, 0, 0, 0,
      0, 0, 0, 0, 0, 0, 0, 0, 0, 0, 0, 0, 0, 0, 0, 0, 0, 0, 0, 0, 0, 0, 0, 0, 0, 0, 0, 0,
      0, 0, 0, 0, 0, 0, 0, 0, 0, 24]
   = (2845392438, 1191608682, 3124634993, 2018558572, 2630932637)"
  by (simp add: sha1_block_eval)

text \<open>The test vector of FIPS 180 for the message \<open>abc\<close>.\<close>

lemma sha1_abc:
  "sha1 (encode ''abc'')
   = [169, 153, 62, 54, 71, 6, 129, 106, 186, 62, 37, 113, 120, 80, 194, 108, 156, 208,
      216, 157]"
  by (simp add: encode_def sha1_eval sha1_block_11)

lemma sha1_block_12:
  "sha1_block (1732584193, 4023233417, 2562383102, 271733878, 3285377520)
     [124, 83, 80, 83, 54, 54, 54, 54, 54, 54, 54, 54, 54, 54, 54, 54, 54, 54, 54, 54,
      54, 54, 54, 54, 54, 54, 54, 54, 54, 54, 54, 54, 54, 54, 54, 54, 54, 54, 54, 54, 54,
      54, 54, 54, 54, 54, 54, 54, 54, 54, 54, 54, 54, 54, 54, 54, 54, 54, 54, 54, 54, 54,
      54, 54]
   = (1649249959, 1059788803, 2505357796, 683697653, 2851912078)"
  by (simp add: sha1_block_eval)

lemma sha1_block_13:
  "sha1_block (1649249959, 1059788803, 2505357796, 683697653, 2851912078)
     [119, 104, 97, 116, 32, 100, 111, 32, 121, 97, 32, 119, 97, 110, 116, 32, 102, 111,
      114, 32, 110, 111, 116, 104, 105, 110, 103, 63, 128, 0, 0, 0, 0, 0, 0, 0, 0, 0, 0,
      0, 0, 0, 0, 0, 0, 0, 0, 0, 0, 0, 0, 0, 0, 0, 0, 0, 0, 0, 0, 0, 0, 0, 2, 224]
   = (2558857796, 989404247, 2743919324, 2395178902, 1812520644)"
  by (simp add: sha1_block_eval)

lemma sha1_block_14:
  "sha1_block (1732584193, 4023233417, 2562383102, 271733878, 3285377520)
     [22, 57, 58, 57, 92, 92, 92, 92, 92, 92, 92, 92, 92, 92, 92, 92, 92, 92, 92, 92, 92,
      92, 92, 92, 92, 92, 92, 92, 92, 92, 92, 92, 92, 92, 92, 92, 92, 92, 92, 92, 92, 92,
      92, 92, 92, 92, 92, 92, 92, 92, 92, 92, 92, 92, 92, 92, 92, 92, 92, 92, 92, 92, 92,
      92]
   = (545797930, 4110815393, 4163865349, 2387344946, 671829557)"
  by (simp add: sha1_block_eval)

lemma sha1_block_15:
  "sha1_block (545797930, 4110815393, 4163865349, 2387344946, 671829557)
     [152, 133, 18, 68, 58, 249, 28, 87, 163, 140, 226, 220, 142, 195, 135, 150, 108, 8,
      222, 196, 128, 0, 0, 0, 0, 0, 0, 0, 0, 0, 0, 0, 0, 0, 0, 0, 0, 0, 0, 0, 0, 0, 0, 0,
      0, 0, 0, 0, 0, 0, 0, 0, 0, 0, 0, 0, 0, 0, 0, 0, 0, 0, 2, 160]
   = (4026326890, 3857395618, 3530823381, 4052017052, 630881401)"
  by (simp add: sha1_block_eval)

text \<open>Test case 2 of RFC 2202 for HMAC-SHA1.\<close>

lemma hmac_sha1_rfc2202:
  "hmac_sha1 (encode ''Jefe'') (encode ''what do ya want for nothing?'')
   = [239, 252, 223, 106, 229, 235, 47, 162, 210, 116, 22, 213, 241, 132, 223, 156, 37,
      154, 124, 121]"
proof -
  have k: "encode ''Jefe'' = [74, 101, 102, 101]"
    (is "_ = ?key")
    by (simp add: encode_def)
  have a: "\<not> 64 < len ?key"
    by (simp add: len_def)
  have b: "?key @ zeros (64 - len ?key)
     = [74, 101, 102, 101, 0, 0, 0, 0, 0, 0, 0, 0, 0, 0, 0, 0, 0, 0, 0, 0, 0, 0, 0, 0, 0,
        0, 0, 0, 0, 0, 0, 0, 0, 0, 0, 0, 0, 0, 0, 0, 0, 0, 0, 0, 0, 0, 0, 0, 0, 0, 0, 0, 0,
        0, 0, 0, 0, 0, 0, 0, 0, 0, 0, 0]"
    (is "_ = ?k")
    by (simp add: len_def zeros.simps)
  have c: "map (\<lambda>b. b XOR 0x36) ?k @ encode ''what do ya want for nothing?''
     = [124, 83, 80, 83, 54, 54, 54, 54, 54, 54, 54, 54, 54, 54, 54, 54, 54, 54, 54, 54,
        54, 54, 54, 54, 54, 54, 54, 54, 54, 54, 54, 54, 54, 54, 54, 54, 54, 54, 54, 54, 54,
        54, 54, 54, 54, 54, 54, 54, 54, 54, 54, 54, 54, 54, 54, 54, 54, 54, 54, 54, 54, 54,
        54, 54, 119, 104, 97, 116, 32, 100, 111, 32, 121, 97, 32, 119, 97, 110, 116, 32,
        102, 111, 114, 32, 110, 111, 116, 104, 105, 110, 103, 63]"
    (is "_ = ?inner")
    by (simp add: encode_def)
  have i: "sha1 ?inner
     = [152, 133, 18, 68, 58, 249, 28, 87, 163, 140, 226, 220, 142, 195, 135, 150, 108, 8,
        222, 196]"
    (is "_ = ?h")
    by (simp add: sha1_eval sha1_block_12 sha1_block_13)
  have d: "map (\<lambda>b. b XOR 0x5C) ?k @ ?h
     = [22, 57, 58, 57, 92, 92, 92, 92, 92, 92, 92, 92, 92, 92, 92, 92, 92, 92, 92, 92, 92,
        92, 92, 92, 92, 92, 92, 92, 92, 92, 92, 92, 92, 92, 92, 92, 92, 92, 92, 92, 92, 92,
        92, 92, 92, 92, 92, 92, 92, 92, 92, 92, 92, 92, 92, 92, 92, 92, 92, 92, 92, 92, 92,
        92, 152, 133, 18, 68, 58, 249, 28, 87, 163, 140, 226, 220, 142, 195, 135, 150, 108,
        8, 222, 196]"
    (is "_ = ?outer")
    by simp
  have o: "sha1 ?outer
     = [239, 252, 223, 106, 229, 235, 47, 162, 210, 116, 22, 213, 241, 132, 223, 156, 37,
        154, 124, 121]"
    by (simp add: sha1_eval sha1_block_14 sha1_block_15)
  show ?thesis
    unfolding hmac_sha1_def Let_def
    by (simp only: k a if_False b c d i o)
qed

lemma sha1_signing_key:
  "sha1 [83, 114, 54, 112, 111, 120, 89, 74, 69, 83, 111, 89, 99, 116, 110, 100, 69, 117,
      102, 106, 106, 116, 106, 88, 103, 88, 85, 71, 122, 49, 117, 114, 105, 110, 65, 56,
      75, 56, 65, 68, 119, 48, 121, 76, 116, 99, 111, 68, 116, 54, 38, 112, 89, 66, 65,
      85, 122, 86, 106, 80, 52, 119, 87, 101, 115, 97, 121, 109, 68, 113, 52, 69, 81, 51,
      100, 100, 108, 99, 72, 113, 113, 55, 76, 82, 71, 111, 88, 84, 101, 90, 72, 74, 79,
      74, 86, 80]
   = [24, 240, 28, 129, 204, 192, 51, 95, 16, 170, 189, 182, 64, 192, 70, 21, 70, 204, 7,
      43]"
  by (simp add: sha1_eval sha1_block_1 sha1_block_2)

lemma sha1_inner:
  "sha1 [46, 198, 42, 183, 250, 246, 5, 105, 38, 156, 139, 128, 118, 246, 112, 35, 112, 250,
      49, 29, 54, 54, 54, 54, 54, 54, 54, 54, 54, 54, 54, 54, 54, 54, 54, 54, 54, 54, 54,
      54, 54, 54, 54, 54, 54, 54, 54, 54, 54, 54, 54, 54, 54, 54, 54, 54, 54, 54, 54, 54,
      54, 54, 54, 54, 80, 79, 83, 84, 38, 104, 116, 116, 112, 115, 37, 51, 65, 37, 50,
      70, 37, 50, 70, 97, 112, 105, 46, 101, 120, 97, 109, 112, 108, 101, 46, 99, 111,
      109, 37, 50, 70, 50, 37, 50, 70, 116, 119, 101, 101, 116, 115, 38, 111, 97, 117,
      116, 104, 95, 99, 111, 110, 115, 117, 109, 101, 114, 95, 107, 101, 121, 37, 51, 68,
      113, 120, 55, 85, 101, 118, 74, 57, 73, 107, 56, 86, 99, 71, 84, 85, 57, 119, 72,
      108, 103, 121, 110, 110, 97, 37, 50, 54, 111, 97, 117, 116, 104, 95, 110, 111, 110,
      99, 101, 37, 51, 68, 48, 48, 48, 49, 48, 50, 48, 51, 48, 52, 48, 53, 48, 54, 48,
      55, 48, 56, 48, 57, 48, 97, 48, 98, 48, 99, 48, 100, 48, 101, 48, 102, 37, 50, 54,
      111, 97, 117, 116, 104, 95, 115, 105, 103, 110, 97, 116, 117, 114, 101, 95, 109,
      101, 116, 104, 111, 100, 37, 51, 68, 72, 77, 65, 67, 45, 83, 72, 65, 49, 37, 50,
      54, 111, 97, 117, 116, 104, 95, 116, 105, 109, 101, 115, 116, 97, 109, 112, 37, 51,
      68, 49, 55, 48, 48, 48, 48, 48, 48, 48, 48, 37, 50, 54, 111, 97, 117, 116, 104, 95,
      116, 111, 107, 101, 110, 37, 51, 68, 50, 48, 49, 51, 55, 48, 48, 56, 51, 53, 54,
      53, 52, 54, 55, 50, 51, 56, 56, 45, 72, 85, 110, 77, 108, 73, 66, 107, 118, 49, 75,
      105, 83, 75, 83, 83, 106, 70, 85, 51, 109, 54, 56, 103, 102, 102, 82, 72, 108, 49,
      37, 50, 54, 111, 97, 117, 116, 104, 95, 118, 101, 114, 115, 105, 111, 110, 37, 51,
      68, 49, 46, 48]
   = [146, 16, 231, 251, 9, 196, 185, 44, 60, 3, 225, 55, 222, 179, 216, 28, 65, 188,
      149, 116]"
  by (simp add: sha1_eval sha1_block_3 sha1_block_4 sha1_block_5 sha1_block_6 sha1_block_7
      sha1_block_8)

lemma sha1_outer:
  "sha1 [68, 172, 64, 221, 144, 156, 111, 3, 76, 246, 225, 234, 28, 156, 26, 73, 26, 144,
      91, 119, 92, 92, 92, 92, 92, 92, 92, 92, 92, 92, 92, 92, 92, 92, 92, 92, 92, 92,
      92, 92, 92, 92, 92, 92, 92, 92, 92, 92, 92, 92, 92, 92, 92, 92, 92, 92, 92, 92, 92,
      92, 92, 92, 92, 92, 146, 16, 231, 251, 9, 196, 185, 44, 60, 3, 225, 55, 222, 179,
      216, 28, 65, 188, 149, 116]
   = [150, 1, 77, 30, 187, 254, 243, 26, 146, 190, 158, 67, 238, 204, 10, 6, 222, 249,
      35, 130]"
  by (simp add: sha1_eval sha1_block_9 sha1_block_10)

lemma hmac_sha1_value:
  "hmac_sha1 [83, 114, 54, 112, 111, 120, 89, 74, 69, 83, 111, 89, 99, 116, 110, 100, 69, 117,
      102, 106, 106, 116, 106, 88, 103, 88, 85, 71, 122, 49, 117, 114, 105, 110, 65, 56,
      75, 56, 65, 68, 119, 48, 121, 76, 116, 99, 111, 68, 116, 54, 38, 112, 89, 66, 65,
      85, 122, 86, 106, 80, 52, 119, 87, 101, 115, 97, 121, 109, 68, 113, 52, 69, 81, 51,
      100, 100, 108, 99, 72, 113, 113, 55, 76, 82, 71, 111, 88, 84, 101, 90, 72, 74, 79,
      74, 86, 80]
     [80, 79, 83, 84, 38, 104, 116, 116, 112, 115, 37, 51, 65, 37, 50, 70, 37, 50, 70,
      97, 112, 105, 46, 101, 120, 97, 109, 112, 108, 101, 46, 99, 111, 109, 37, 50, 70,
      50, 37, 50, 70, 116, 119, 101, 101, 116, 115, 38, 111, 97, 117, 116, 104, 95, 99,
      111, 110, 115, 117, 109, 101, 114, 95, 107, 101, 121, 37, 51, 68, 113, 120, 55, 85,
      101, 118, 74, 57, 73, 107, 56, 86, 99, 71, 84, 85, 57, 119, 72, 108, 103, 121, 110,
      110, 97, 37, 50, 54, 111, 97, 117, 116, 104, 95, 110, 111, 110, 99, 101, 37, 51,
      68, 48, 48, 48, 49, 48, 50, 48, 51, 48, 52, 48, 53, 48, 54, 48, 55, 48, 56, 48, 57,
      48, 97, 48, 98, 48, 99, 48, 100, 48, 101, 48, 102, 37, 50, 54, 111, 97, 117, 116,
      104, 95, 115, 105, 103, 110, 97, 116, 117, 114, 101, 95, 109, 101, 116, 104, 111,
      100, 37, 51, 68, 72, 77, 65, 67, 45, 83, 72, 65, 49, 37, 50, 54, 111, 97, 117, 116,
      104, 95, 116, 105, 109, 101, 115, 116, 97, 109, 112, 37, 51, 68, 49, 55, 48, 48,
      48, 48, 48, 48, 48, 48, 37, 50, 54, 111, 97, 117, 116, 104, 95, 116, 111, 107, 101,
      110, 37, 51, 68, 50, 48, 49, 51, 55, 48, 48, 56, 51, 53, 54, 53, 52, 54, 55, 50,
      51, 56, 56, 45, 72, 85, 110, 77, 108, 73, 66, 107, 118, 49, 75, 105, 83, 75, 83,
      83, 106, 70, 85, 51, 109, 54, 56, 103, 102, 102, 82, 72, 108, 49, 37, 50, 54, 111,
      97, 117, 116, 104, 95, 118, 101, 114, 115, 105, 111, 110, 37, 51, 68, 49, 46, 48]
   = [150, 1, 77, 30, 187, 254, 243, 26, 146, 190, 158, 67, 238, 204, 10, 6, 222, 249,
      35, 130]"
  (is "hmac_sha1 ?key ?msg = ?mac")
proof -
  have a: "64 < len ?key"
    by (simp add: len_def)
  have b: "sha1 ?key @ zeros (64 - len (sha1 ?key))
     = [24, 240, 28, 129, 204, 192, 51, 95, 16, 170, 189, 182, 64, 192, 70, 21, 70, 204, 7,
        43, 0, 0, 0, 0, 0, 0, 0, 0, 0, 0, 0, 0, 0, 0, 0, 0, 0, 0, 0, 0, 0, 0, 0, 0, 0, 0,
        0, 0, 0, 0, 0, 0, 0, 0, 0, 0, 0, 0, 0, 0, 0, 0, 0, 0]"
    (is "_ = ?k")
    by (simp add: sha1_signing_key len_def zeros.simps)
  have c: "map (\<lambda>b. b XOR 0x36) ?k @ ?msg
     = [46, 198, 42, 183, 250, 246, 5, 105, 38, 156, 139, 128, 118, 246, 112, 35, 112, 250,
        49, 29, 54, 54, 54, 54, 54, 54, 54, 54, 54, 54, 54, 54, 54, 54, 54, 54, 54, 54, 54,
        54, 54, 54, 54, 54, 54, 54, 54, 54, 54, 54, 54, 54, 54, 54, 54, 54, 54, 54, 54, 54,
        54, 54, 54, 54, 80, 79, 83, 84, 38, 104, 116, 116, 112, 115, 37, 51, 65, 37, 50,
        70, 37, 50, 70, 97, 112, 105, 46, 101, 120, 97, 109, 112, 108, 101, 46, 99, 111,
        109, 37, 50, 70, 50, 37, 50, 70, 116, 119, 101, 101, 116, 115, 38, 111, 97, 117,
        116, 104, 95, 99, 111, 110, 115, 117, 109, 101, 114, 95, 107, 101, 121, 37, 51, 68,
        113, 120, 55, 85, 101, 118, 74, 57, 73, 107, 56, 86, 99, 71, 84, 85, 57, 119, 72,
        108, 103, 121, 110, 110, 97, 37, 50, 54, 111, 97, 117, 116, 104, 95, 110, 111, 110,
        99, 101, 37, 51, 68, 48, 48, 48, 49, 48, 50, 48, 51, 48, 52, 48, 53, 48, 54, 48,
        55, 48, 56, 48, 57, 48, 97, 48, 98, 48, 99, 48, 100, 48, 101, 48, 102, 37, 50, 54,
        111, 97, 117, 116, 104, 95, 115, 105, 103, 110, 97, 116, 117, 114, 101, 95, 109,
        101, 116, 104, 111, 100, 37, 51, 68, 72, 77, 65, 67, 45, 83, 72, 65, 49, 37, 50,
        54, 111, 97, 117, 116, 104, 95, 116, 105, 109, 101, 115, 116, 97, 109, 112, 37, 51,
        68, 49, 55, 48, 48, 48, 48, 48, 48, 48, 48, 37, 50, 54, 111, 97, 117, 116, 104, 95,
        116, 111, 107, 101, 110, 37, 51, 68, 50, 48, 49, 51, 55, 48, 48, 56, 51, 53, 54,
        53, 52, 54, 55, 50, 51, 56, 56, 45, 72, 85, 110, 77, 108, 73, 66, 107, 118, 49, 75,
        105, 83, 75, 83, 83, 106, 70, 85, 51, 109, 54, 56, 103, 102, 102, 82, 72, 108, 49,
        37, 50, 54, 111, 97, 117, 116, 104, 95, 118, 101, 114, 115, 105, 111, 110, 37, 51,
        68, 49, 46, 48]"
    by simp
  have d: "map (\<lambda>b. b XOR 0x5C) ?k
       @ [146, 16, 231, 251, 9, 196, 185, 44, 60, 3, 225, 55, 222, 179, 216, 28, 65, 188,
        149, 116]
     = [68, 172, 64, 221, 144, 156, 111, 3, 76, 246, 225, 234, 28, 156, 26, 73, 26, 144,
        91, 119, 92, 92, 92, 92, 92, 92, 92, 92, 92, 92, 92, 92, 92, 92, 92, 92, 92, 92,
        92, 92, 92, 92, 92, 92, 92, 92, 92, 92, 92, 92, 92, 92, 92, 92, 92, 92, 92, 92, 92,
        92, 92, 92, 92, 92, 146, 16, 231, 251, 9, 196, 185, 44, 60, 3, 225, 55, 222, 179,
        216, 28, 65, 188, 149, 116]"
    by simp
  show ?thesis
    unfolding hmac_sha1_def Let_def
    by (simp only: a if_True b c d sha1_inner sha1_outer)
qed

lemma signing_key_value:
  "signing_key = ''Sr6poxYJESoYctndEufjjtjXgXUGz1urinA8K8ADw0yLtcoDt6&pYBAUzVjP4wWesaymDq'' @
      ''4EQ3ddlcHqq7LRGoXTeZHJOJVP''"
  by (simp add: signing_key_def AKS_def ATS_def quote_eval)

lemma encode_signing_key:
  "encode signing_key
   = [83, 114, 54, 112, 111, 120, 89, 74, 69, 83, 111, 89, 99, 116, 110, 100, 69, 117,
      102, 106, 106, 116, 106, 88, 103, 88, 85, 71, 122, 49, 117, 114, 105, 110, 65, 56,
      75, 56, 65, 68, 119, 48, 121, 76, 116, 99, 111, 68, 116, 54, 38, 112, 89, 66, 65,
      85, 122, 86, 106, 80, 52, 119, 87, 101, 115, 97, 121, 109, 68, 113, 52, 69, 81, 51,
      100, 100, 108, 99, 72, 113, 113, 55, 76, 82, 71, 111, 88, 84, 101, 90, 72, 74, 79,
      74, 86, 80]"
  by (simp add: signing_key_value encode_def)

lemma base_string_value:
  "base_string ''POST'' ''https://api.example.com/2/tweets''
     (all_p None 1700000000 ''000102030405060708090a0b0c0d0e0f'')
   = ''POST&https%3A%2F%2Fapi.example.com%2F2%2Ftweets&oauth_consumer_key%3Dq'' @
      ''x7UevJ9Ik8VcGTU9wHlgynna%26oauth_nonce%3D000102030405060708090a0b0c0d0'' @
      ''e0f%26oauth_signature_method%3DHMAC-SHA1%26oauth_timestamp%3D170000000'' @
      ''0%26oauth_token%3D2013700835654672388-HUnMlIBkv1KiSKSSjFU3m68gffRHl1%2'' @
      ''6oauth_version%3D1.0''"
  by (simp add: base_string_def param_string_def param_pair_def all_p_def dict_merge_def
      oauth_dict_def AK_def AT_def str_nat.simps quote_eval)

lemma encode_base_string:
  "encode (base_string ''POST'' ''https://api.example.com/2/tweets''
     (all_p None 1700000000 ''000102030405060708090a0b0c0d0e0f''))
   = [80, 79, 83, 84, 38, 104, 116, 116, 112, 115, 37, 51, 65, 37, 50, 70, 37, 50, 70,
      97, 112, 105, 46, 101, 120, 97, 109, 112, 108, 101, 46, 99, 111, 109, 37, 50, 70,
      50, 37, 50, 70, 116, 119, 101, 101, 116, 115, 38, 111, 97, 117, 116, 104, 95, 99,
      111, 110, 115, 117, 109, 101, 114, 95, 107, 101, 121, 37, 51, 68, 113, 120, 55, 85,
      101, 118, 74, 57, 73, 107, 56, 86, 99, 71, 84, 85, 57, 119, 72, 108, 103, 121, 110,
      110, 97, 37, 50, 54, 111, 97, 117, 116, 104, 95, 110, 111, 110, 99, 101, 37, 51,
      68, 48, 48, 48, 49, 48, 50, 48, 51, 48, 52, 48, 53, 48, 54, 48, 55, 48, 56, 48, 57,
      48, 97, 48, 98, 48, 99, 48, 100, 48, 101, 48, 102, 37, 50, 54, 111, 97, 117, 116,
      104, 95, 115, 105, 103, 110, 97, 116, 117, 114, 101, 95, 109, 101, 116, 104, 111,
      100, 37, 51, 68, 72, 77, 65, 67, 45, 83, 72, 65, 49, 37, 50, 54, 111, 97, 117, 116,
      104, 95, 116, 105, 109, 101, 115, 116, 97, 109, 112, 37, 51, 68, 49, 55, 48, 48,
      48, 48, 48, 48, 48, 48, 37, 50, 54, 111, 97, 117, 116, 104, 95, 116, 111, 107, 101,
      110, 37, 51, 68, 50, 48, 49, 51, 55, 48, 48, 56, 51, 53, 54, 53, 52, 54, 55, 50,
      51, 56, 56, 45, 72, 85, 110, 77, 108, 73, 66, 107, 118, 49, 75, 105, 83, 75, 83,
      83, 106, 70, 85, 51, 109, 54, 56, 103, 102, 102, 82, 72, 108, 49, 37, 50, 54, 111,
      97, 117, 116, 104, 95, 118, 101, 114, 115, 105, 111, 110, 37, 51, 68, 49, 46, 48]"
  by (simp add: base_string_value encode_def)

lemma b64encode_value:
  "b64encode [150, 1, 77, 30, 187, 254, 243, 26, 146, 190, 158, 67, 238, 204, 10, 6, 222, 249,
      35, 130]
   = ''lgFNHrv+8xqSvp5D7swKBt75I4I=''"
  by (simp add: b64char_def)

lemma all_p_empty: "all_p (Some []) t n = all_p None t n"
  by (simp add: all_p_def)

text \<open>
  Claim C1. For \<open>POST\<close>, \<open>https://api.example.com/2/tweets\<close>, no extra parameters
  (\<open>None\<close> or the empty dict), the timestamp 1700000000 and the nonce
  \<open>000102030405060708090a0b0c0d0e0f\<close>, the base string is the method, the encoded URL
  and the encoded sorted parameter string joined by \<open>&\<close>, the key is the two encoded
  secrets joined by \<open>&\<close>, and \<open>oauth_signature\<close>, the Base64 text of the HMAC-SHA1
  of the base string under that key, is the reference value
  \<open>lgFNHrv+8xqSvp5D7swKBt75I4I=\<close>; it is the seventh field of the header.
\<close>

theorem oauth_signature_reference:
  "base_string ''POST'' ''https://api.example.com/2/tweets''
     (all_p None 1700000000 ''000102030405060708090a0b0c0d0e0f'')
   = ''POST&https%3A%2F%2Fapi.example.com%2F2%2Ftweets&oauth_consumer_key%3Dq'' @
      ''x7UevJ9Ik8VcGTU9wHlgynna%26oauth_nonce%3D000102030405060708090a0b0c0d0'' @
      ''e0f%26oauth_signature_method%3DHMAC-SHA1%26oauth_timestamp%3D170000000'' @
      ''0%26oauth_token%3D2013700835654672388-HUnMlIBkv1KiSKSSjFU3m68gffRHl1%2'' @
      ''6oauth_version%3D1.0''
   \<and> signing_key = ''Sr6poxYJESoYctndEufjjtjXgXUGz1urinA8K8ADw0yLtcoDt6&pYBAUzVjP4wWesaymDq'' @
      ''4EQ3ddlcHqq7LRGoXTeZHJOJVP''
   \<and> oauth_signature ''POST'' ''https://api.example.com/2/tweets'' None 1700000000
       ''000102030405060708090a0b0c0d0e0f''
     = b64encode (hmac_sha1 (encode signing_key)
         (encode (base_string ''POST'' ''https://api.example.com/2/tweets''
            (all_p None 1700000000 ''000102030405060708090a0b0c0d0e0f''))))
   \<and> oauth_signature ''POST'' ''https://api.example.com/2/tweets'' None 1700000000
       ''000102030405060708090a0b0c0d0e0f'' = ''lgFNHrv+8xqSvp5D7swKBt75I4I=''
   \<and> oauth_signature ''POST'' ''https://api.example.com/2/tweets'' (Some []) 1700000000
       ''000102030405060708090a0b0c0d0e0f'' = ''lgFNHrv+8xqSvp5D7swKBt75I4I=''
   \<and> header_fields ''POST'' ''https://api.example.com/2/tweets'' None 1700000000
       ''000102030405060708090a0b0c0d0e0f'' ! 6 = (''oauth_signature'', ''lgFNHrv+8xqSvp5D7swKBt75I4I='')"
proof -
  have s: "oauth_signature ''POST'' ''https://api.example.com/2/tweets'' None 1700000000
       ''000102030405060708090a0b0c0d0e0f'' = ''lgFNHrv+8xqSvp5D7swKBt75I4I=''"
    unfolding oauth_signature_def sign_base_def
    by (simp only: encode_base_string encode_signing_key hmac_sha1_value b64encode_value)
  have e: "oauth_signature ''POST'' ''https://api.example.com/2/tweets'' (Some []) 1700000000
       ''000102030405060708090a0b0c0d0e0f'' = ''lgFNHrv+8xqSvp5D7swKBt75I4I=''"
    using s by (simp only: oauth_signature_def all_p_empty)
  have f: "header_fields ''POST'' ''https://api.example.com/2/tweets'' None 1700000000
       ''000102030405060708090a0b0c0d0e0f'' ! 6 = (''oauth_signature'', ''lgFNHrv+8xqSvp5D7swKBt75I4I='')"
    by (simp add: header_fields_eq s)
  have g: "oauth_signature ''POST'' ''https://api.example.com/2/tweets'' None 1700000000
       ''000102030405060708090a0b0c0d0e0f''
     = b64encode (hmac_sha1 (encode signing_key)
         (encode (base_string ''POST'' ''https://api.example.com/2/tweets''
            (all_p None 1700000000 ''000102030405060708090a0b0c0d0e0f''))))"
    by (simp only: oauth_signature_def sign_base_def)
  show ?thesis
    using base_string_value signing_key_value g s e f by (intro conjI)
qed

end
